theory Spec2Isabelle
  imports Complex_Main "HOL-Library.Word"
begin

section \<open>JavaScript values\<close>

text \<open>
  The front end of LexIntake is two React components and the \<open>App\<close> shell. Their
  state is held in \<open>useState\<close> cells, their handlers read the cells of the current
  render and write new ones. The embedding passes the state explicitly: a handler takes
  the state record and returns the updated record, together with whatever it hands to
  the outside (the form data given to \<open>onAnalyze\<close>, the request given to axios, the
  download given to the browser).

  A JavaScript string is a sequence of 16-bit code units. Literals of the source are
  ASCII but for two Turkish letters, written out as their code units.
\<close>

type_synonym jstring = "16 word list"

definition js :: "string \<Rightarrow> jstring" where
  "js s = map of_char s"

text \<open>
  The values a JSON field or a state cell can hold, as far as the components look at
  them: only truthiness, strict comparison with \<open>null\<close> and rendering as a React
  child are ever used. A missing field reads as \<open>undefined\<close>. JSON has no NaN and no
  infinities, so a number is the real it denotes.
\<close>

datatype jsval = JUndefined | JNull | JBool bool | JNum real | JStr jstring

fun truthy :: "jsval \<Rightarrow> bool" where
  "truthy JUndefined = False"
| "truthy JNull = False"
| "truthy (JBool b) = b"
| "truthy (JNum x) = (x \<noteq> 0)"
| "truthy (JStr s) = (s \<noteq> [])"

text \<open>
  \<open>String.prototype.trim\<close> removes the code units of WhiteSpace and LineTerminator
  from both ends.
\<close>

definition is_js_space :: "16 word \<Rightarrow> bool" where
  "is_js_space c \<longleftrightarrow>
     c = 0x0009 \<or> c = 0x000A \<or> c = 0x000B \<or> c = 0x000C \<or> c = 0x000D \<or> c = 0x0020 \<or>
     c = 0x00A0 \<or> c = 0x1680 \<or> (0x2000 \<le> c \<and> c \<le> 0x200A) \<or> c = 0x2028 \<or>
     c = 0x2029 \<or> c = 0x202F \<or> c = 0x205F \<or> c = 0x3000 \<or> c = 0xFEFF"

definition trim :: "jstring \<Rightarrow> jstring" where
  "trim s = rev (dropWhile is_js_space (rev (dropWhile is_js_space s)))"

text \<open>
  \<open>toLowerCase\<close>, on the letters A to Z; code units outside ASCII are left as they
  are. It is only ever compared with the ASCII patterns of the accept tables and the
  ASCII keys of the extension table.
\<close>

definition toLowerCase :: "jstring \<Rightarrow> jstring" where
  "toLowerCase s = map (\<lambda>c. if 0x41 \<le> c \<and> c \<le> 0x5A then c + 0x20 else c) s"

definition endsWith :: "jstring \<Rightarrow> jstring \<Rightarrow> bool" where
  "endsWith s t \<longleftrightarrow> length t \<le> length s \<and> drop (length s - length t) s = t"

section \<open>Files and the dropzone filter\<close>

text \<open>
  A browser \<open>File\<close>: its name, its declared MIME type and its size in bytes. (The
  fields are \<open>name\<close>, \<open>type\<close> and \<open>size\<close> in the browser.)
\<close>

record jsfile =
  file_name :: jstring
  file_type :: jstring
  file_size :: nat

text \<open>
  Both upload areas are built with \<open>useDropzone\<close> of the react-dropzone library. The
  options are the repository's; the filter that applies them is the library's and is
  reproduced here as the library documents it:

  \<^item> the files of a drop or of the file dialog are read through the library's
    file-selector, which gives a file that has an extension and no MIME type the type
    its table lists for the lower-cased extension, when it lists one; the table is the
    library's and is a parameter here;
  \<^item> the \<open>accept\<close> object is flattened, in order, to the list of its keys (MIME
    patterns) and their extensions (an entry that is neither is left out; every entry
    of the two tables below is one);
  \<^item> a file matches the list when one entry matches it: an entry starting with a dot
    matches when the lower-cased file name ends with it, an entry ending in \<open>/*\<close>
    matches when the part of the lower-cased MIME type before the slash equals the
    entry's, any other entry matches when it equals the lower-cased MIME type; the type
    \<open>application/x-moz-file\<close> is always let through;
  \<^item> a file passes the size check when its size is at most \<open>maxSize\<close> (the minimum
    size defaults to 0);
  \<^item> without \<open>multiple\<close>, a drop with more than one passing file is rejected whole;
  \<^item> \<open>onDrop\<close> is called with the accepted files, also when there are none.
\<close>

record dropzone_options =
  accept :: "(jstring \<times> jstring list) list"
  multiple :: bool
  maxSize :: nat

definition acceptPropAsAcceptAttr :: "(jstring \<times> jstring list) list \<Rightarrow> jstring list" where
  "acceptPropAsAcceptAttr acc = concat (map (\<lambda>(mimeType, ext). mimeType # ext) acc)"

definition baseMimeType :: "jstring \<Rightarrow> jstring" where
  "baseMimeType mimeType = takeWhile (\<lambda>c. c \<noteq> 0x2F) mimeType"

definition matches_type :: "jsfile \<Rightarrow> jstring \<Rightarrow> bool" where
  "matches_type f ty =
     (let validType = toLowerCase (trim ty);
          mimeType = toLowerCase (file_type f)
      in if take 1 validType = js ''.'' then endsWith (toLowerCase (file_name f)) validType
         else if endsWith validType (js ''/*'') then baseMimeType mimeType = baseMimeType validType
         else mimeType = validType)"

definition accepts :: "jsfile \<Rightarrow> jstring list \<Rightarrow> bool" where
  "accepts f acceptedFiles \<longleftrightarrow> acceptedFiles = [] \<or> list_ex (matches_type f) acceptedFiles"

definition fileAccepted :: "jsfile \<Rightarrow> jstring list \<Rightarrow> bool" where
  "fileAccepted f acceptAttr \<longleftrightarrow>
     file_type f = js ''application/x-moz-file'' \<or> accepts f acceptAttr"

definition fileMatchSize :: "jsfile \<Rightarrow> nat \<Rightarrow> bool" where
  "fileMatchSize f mx \<longleftrightarrow> file_size f \<le> mx"

definition file_passes :: "dropzone_options \<Rightarrow> jsfile \<Rightarrow> bool" where
  "file_passes opts f \<longleftrightarrow>
     fileAccepted f (acceptPropAsAcceptAttr (accept opts)) \<and> fileMatchSize f (maxSize opts)"

text \<open>\<open>name.split('.').pop().toLowerCase()\<close>\<close>

definition extension :: "jstring \<Rightarrow> jstring" where
  "extension nm = toLowerCase (rev (takeWhile (\<lambda>c. c \<noteq> 0x2E) (rev nm)))"

text \<open>
  file-selector's \<open>withMimeType\<close>: the same file, its \<open>type\<close> redefined when the
  browser gave none and the table has one for the extension.
\<close>

definition withMimeType :: "(jstring \<Rightarrow> jstring option) \<Rightarrow> jsfile \<Rightarrow> jsfile" where
  "withMimeType tbl f =
     (if file_name f \<noteq> [] \<and> 0x2E \<in> set (file_name f) \<and> file_type f = [] then
        (case tbl (extension (file_name f)) of
           None \<Rightarrow> f
         | Some ty \<Rightarrow> if ty = [] then f else f\<lparr>file_type := ty\<rparr>)
      else f)"

text \<open>From the files as dropped to the files \<open>onDrop\<close> is called with.\<close>

definition acceptedFiles_of ::
  "(jstring \<Rightarrow> jstring option) \<Rightarrow> dropzone_options \<Rightarrow> jsfile list \<Rightarrow> jsfile list" where
  "acceptedFiles_of tbl opts files =
     (let acceptedFiles = filter (file_passes opts) (map (withMimeType tbl) files)
      in if \<not> multiple opts \<and> 1 < length acceptedFiles then [] else acceptedFiles)"

section \<open>UploadSection\<close>

text \<open>The \<open>clientInfo\<close> object, with its fields \<open>name\<close>, \<open>email\<close> and \<open>notes\<close>.\<close>

record client_info =
  ci_name :: jstring
  ci_email :: jstring
  ci_notes :: jstring

text \<open>
  The four state cells of the component. \<open>errors\<close> is an object used as a dictionary
  from field names to messages: an association list, so that \<open>Object.keys\<close> can be
  counted.
\<close>

record upload_state =
  mainReport :: "jsfile option"
  additionalPhotos :: "jsfile list"
  clientInfo :: client_info
  errors :: "(string \<times> jsval) list"

definition initial_upload :: upload_state where
  "initial_upload =
     \<lparr>mainReport = None, additionalPhotos = [],
      clientInfo = \<lparr>ci_name = [], ci_email = [], ci_notes = []\<rparr>, errors = []\<rparr>"

text \<open>\<open>{...prev, key: v}\<close>: the key keeps its place when it is there, else it is added.\<close>

fun spread_set :: "(string \<times> jsval) list \<Rightarrow> string \<Rightarrow> jsval \<Rightarrow> (string \<times> jsval) list" where
  "spread_set [] k v = [(k, v)]"
| "spread_set ((k', v') # kvs) k v =
     (if k' = k then (k, v) # kvs else (k', v') # spread_set kvs k v)"

definition report_options :: dropzone_options where
  "report_options =
     \<lparr>accept = [(js ''application/pdf'', [js ''.pdf'']),
                (js ''image/*'', [js ''.png'', js ''.jpg'', js ''.jpeg'', js ''.gif'', js ''.bmp''])],
      multiple = False,
      maxSize = 10485760\<rparr>"

definition photos_options :: dropzone_options where
  "photos_options =
     \<lparr>accept = [(js ''image/*'', [js ''.png'', js ''.jpg'', js ''.jpeg'', js ''.gif'', js ''.bmp''])],
      multiple = True,
      maxSize = 10485760\<rparr>"

definition onDropReport :: "jsfile list \<Rightarrow> upload_state \<Rightarrow> upload_state" where
  "onDropReport acceptedFiles s =
     (case acceptedFiles of
        [] \<Rightarrow> s
      | f # _ \<Rightarrow> s\<lparr>mainReport := Some f, errors := spread_set (errors s) ''report'' JNull\<rparr>)"

definition onDropPhotos :: "jsfile list \<Rightarrow> upload_state \<Rightarrow> upload_state" where
  "onDropPhotos acceptedFiles s =
     s\<lparr>additionalPhotos := take 5 (additionalPhotos s @ acceptedFiles)\<rparr>"

text \<open>\<open>prev.filter((_, i) => i !== index)\<close>\<close>

definition filter_index :: "(nat \<Rightarrow> bool) \<Rightarrow> 'a list \<Rightarrow> 'a list" where
  "filter_index p xs = map snd (filter (\<lambda>(i, _). p i) (enumerate 0 xs))"

definition removePhoto :: "nat \<Rightarrow> upload_state \<Rightarrow> upload_state" where
  "removePhoto index s =
     s\<lparr>additionalPhotos := filter_index (\<lambda>i. i \<noteq> index) (additionalPhotos s)\<rparr>"

text \<open>The message of \<open>validateForm\<close>; U+011F and U+0131 are the two Turkish letters.\<close>

definition report_required :: jstring where
  "report_required = js ''Kaza Tespit Tutana'' @ [0x011F, 0x0131] @ js '' is required''"

definition validateForm :: "upload_state \<Rightarrow> bool \<times> upload_state" where
  "validateForm s =
     (let newErrors = (if mainReport s = None then [(''report'', JStr report_required)] else [])
      in (length newErrors = 0, s\<lparr>errors := newErrors\<rparr>))"

text \<open>
  \<open>FormData\<close>: the entries in the order they were appended. A value is a file or a
  string; \<open>append\<close> turns any other value into its string.
\<close>

datatype form_value = FFile jsfile | FString jstring

type_synonym form_data = "(string \<times> form_value) list"

definition append_report :: "jsfile option \<Rightarrow> form_data" where
  "append_report r =
     [(''accident_report'', (case r of None \<Rightarrow> FString (js ''null'') | Some f \<Rightarrow> FFile f))]"

definition append_if :: "string \<Rightarrow> jstring \<Rightarrow> form_data" where
  "append_if k v = (if truthy (JStr v) then [(k, FString v)] else [])"

definition build_formData :: "upload_state \<Rightarrow> form_data" where
  "build_formData s =
     append_report (mainReport s)
     @ map (\<lambda>photo. (''photos'', FFile photo)) (additionalPhotos s)
     @ append_if ''client_name'' (ci_name (clientInfo s))
     @ append_if ''client_email'' (ci_email (clientInfo s))
     @ append_if ''additional_notes'' (ci_notes (clientInfo s))"

text \<open>
  \<open>handleSubmit\<close>: the new state, and the form data handed to \<open>onAnalyze\<close> when it is
  called (\<open>None\<close> when the handler returns before the call).
\<close>

definition handleSubmit :: "upload_state \<Rightarrow> upload_state \<times> form_data option" where
  "handleSubmit s =
     (case validateForm s of
        (ok, s') \<Rightarrow> if \<not> ok then (s', None) else (s', Some (build_formData s)))"

text \<open>
  What a user can do to the form. A drop carries the files as dropped; the dropzone
  reads and filters them before the component's callback sees them. \<open>Submit\<close> runs
  the handler in every state, also in one without a report, where the button that calls
  it is disabled, and goes on with the same form afterwards, although a form that has
  sent a request is unmounted and comes back as the initial one: the states of \<open>run\<close>
  include all the form is in while it is on screen.
\<close>

datatype event =
    DropReport "jsfile list"
  | ClearReport
  | DropPhotos "jsfile list"
  | RemovePhoto nat
  | SetName jstring
  | SetEmail jstring
  | SetNotes jstring
  | Submit

fun upload_step :: "(jstring \<Rightarrow> jstring option) \<Rightarrow> upload_state \<Rightarrow> event \<Rightarrow> upload_state" where
  "upload_step tbl s (DropReport files) = onDropReport (acceptedFiles_of tbl report_options files) s"
| "upload_step tbl s ClearReport = s\<lparr>mainReport := None\<rparr>"
| "upload_step tbl s (DropPhotos files) = onDropPhotos (acceptedFiles_of tbl photos_options files) s"
| "upload_step tbl s (RemovePhoto index) = removePhoto index s"
| "upload_step tbl s (SetName v) = s\<lparr>clientInfo := (clientInfo s)\<lparr>ci_name := v\<rparr>\<rparr>"
| "upload_step tbl s (SetEmail v) = s\<lparr>clientInfo := (clientInfo s)\<lparr>ci_email := v\<rparr>\<rparr>"
| "upload_step tbl s (SetNotes v) = s\<lparr>clientInfo := (clientInfo s)\<lparr>ci_notes := v\<rparr>\<rparr>"
| "upload_step tbl s Submit = fst (handleSubmit s)"

definition run :: "(jstring \<Rightarrow> jstring option) \<Rightarrow> event list \<Rightarrow> upload_state" where
  "run tbl evs = foldl (upload_step tbl) initial_upload evs"

text \<open>\<open>FormData.getAll\<close>: the values appended under a key, in order.\<close>

definition getAll :: "string \<Rightarrow> form_data \<Rightarrow> form_value list" where
  "getAll k fd = map snd (filter (\<lambda>(k', _). k' = k) fd)"

section \<open>The analysis result\<close>

text \<open>
  The JSON object the server answers with, as the results view reads it. Objects the
  view dereferences without a check (\<open>analysis\<close>, \<open>accident_details\<close>,
  \<open>fault_assessment\<close>, the two parties) are records; an object or array the view
  guards (\<open>form_checkboxes &&\<close>, \<open>photo_analyses?.length\<close>) is an option, \<open>None\<close>
  when the field is missing or null; a leaf is a value.
\<close>

record details_rec =
  date :: jsval
  time :: jsval
  location :: jsval

text \<open>A party; \<open>party_name\<close> is its field \<open>name\<close>.\<close>

record party_rec =
  party_name :: jsval
  vehicle_plate :: jsval
  vehicle_type :: jsval
  insurance_company :: jsval

record checkboxes_rec =
  section_12_selections :: "jsval list option"
  section_13_selections :: "jsval list option"

record photo_rec =
  photo_id :: jsval
  description :: jsval

record fault_rec =
  preliminary_fault_party :: jsval
  party_a_fault_percentage :: jsval
  party_b_fault_percentage :: jsval

record analysis_rec =
  case_summary :: jsval
  accident_details :: details_rec
  party_a :: party_rec
  party_b :: party_rec
  form_checkboxes :: "checkboxes_rec option"
  photo_analyses :: "photo_rec list option"
  fault_assessment :: fault_rec
  recommended_actions :: "jsval list option"
  extraction_confidence :: jsval
  missing_information :: "jstring list option"

record result_rec =
  briefing_html :: jstring
  session_id :: jstring
  analysis :: analysis_rec

section \<open>AnalysisResults\<close>

text \<open>
  What a render produces: a tree of elements and text. Styling (\<open>className\<close>,
  \<open>style\<close>), icons, keys and click handlers are left out. \<open>VRoundPercent v\<close> is the
  number \<open>Math.round(v * 100)\<close>, kept as written because the product is a floating
  point one; \<open>VHtml h\<close> is what html-react-parser makes of the markup \<open>h\<close>.
\<close>

datatype vnode =
    VText jstring
  | VNum real
  | VRoundPercent jsval
  | VHtml jstring
  | VElem string "vnode list"

text \<open>
  A value as a React child: a string or a number is shown as text; \<open>undefined\<close>,
  \<open>null\<close> and booleans show nothing.
\<close>

fun child :: "jsval \<Rightarrow> vnode list" where
  "child JUndefined = []"
| "child JNull = []"
| "child (JBool b) = []"
| "child (JNum x) = [VNum x]"
| "child (JStr s) = [VText s]"

text \<open>
  \<open>{v && (element)}\<close>: the element when \<open>v\<close> is truthy, else \<open>v\<close> itself as the
  child.
\<close>

definition and_then :: "jsval \<Rightarrow> vnode list \<Rightarrow> vnode list" where
  "and_then v nodes = (if truthy v then nodes else child v)"

text \<open>
  \<open>{xs?.length > 0 && (element)}\<close>: the comparison is a boolean, so nothing is shown
  when it fails.
\<close>

definition when_items :: "'a list option \<Rightarrow> ('a list \<Rightarrow> vnode) \<Rightarrow> vnode list" where
  "when_items xs render =
     (case xs of None \<Rightarrow> [] | Some ys \<Rightarrow> if 0 < length ys then [render ys] else [])"

fun join :: "jstring \<Rightarrow> jstring list \<Rightarrow> jstring" where
  "join sep [] = []"
| "join sep [x] = x"
| "join sep (x # y # ys) = x @ sep @ join sep (y # ys)"

subsection \<open>The data quality indicator\<close>

definition missing_warning :: "jstring list \<Rightarrow> vnode" where
  "missing_warning mi = VElem ''div'' [VText (js ''Missing: ''), VText (join (js '', '') mi)]"

definition confidence_card :: "analysis_rec \<Rightarrow> vnode" where
  "confidence_card a =
     VElem ''div''
       ([VElem ''div''
           [VElem ''span'' [VText (js ''Analysis Confidence'')],
            VElem ''span'' [VRoundPercent (extraction_confidence a), VText (js ''%'')]],
         VElem ''div'' [VElem ''div'' []]]
        @ when_items (missing_information a) missing_warning)"

definition data_quality_indicator :: "analysis_rec \<Rightarrow> vnode list" where
  "data_quality_indicator a = and_then (extraction_confidence a) [confidence_card a]"

text \<open>Everything a list of rendered nodes shows: the nodes and all that is below them.\<close>

fun descendants :: "vnode \<Rightarrow> vnode list" where
  "descendants (VElem tag cs) = cs @ concat (map descendants cs)"
| "descendants n = []"

definition rendered :: "vnode list \<Rightarrow> vnode list" where
  "rendered ns = ns @ concat (map descendants ns)"

subsection \<open>The tabs\<close>

datatype tab = Summary | Parties | Details | Full

definition fault_box :: "jstring \<Rightarrow> jsval \<Rightarrow> vnode" where
  "fault_box label percentage =
     VElem ''div''
       [VElem ''div''
          [VElem ''p'' [VText label],
           VElem ''p'' (child percentage @ [VText (js ''%'')])]]"

definition fault_distribution :: "fault_rec \<Rightarrow> vnode" where
  "fault_distribution fa =
     VElem ''div''
       [VElem ''p'' [VText (js ''Estimated Fault Distribution:'')],
        VElem ''div''
          [fault_box (js ''Party A'') (party_a_fault_percentage fa),
           fault_box (js ''Party B'') (party_b_fault_percentage fa)]]"

definition fault_section :: "fault_rec \<Rightarrow> vnode" where
  "fault_section fa =
     VElem ''div''
       ([VElem ''h3'' [VText (js ''Preliminary Fault Assessment'')]]
        @ and_then (preliminary_fault_party fa)
            [VElem ''p''
               ([VElem ''strong'' [VText (js ''Likely At-Fault Party:'')], VText (js '' '')]
                @ child (preliminary_fault_party fa))]
        @ (if party_a_fault_percentage fa \<noteq> JNull then [fault_distribution fa] else []))"

definition summary_tab :: "analysis_rec \<Rightarrow> vnode" where
  "summary_tab a =
     VElem ''div''
       [VElem ''div''
          [VElem ''h3'' [VText (js ''Case Summary'')],
           VElem ''p'' (child (case_summary a))],
        VElem ''div''
          [VElem ''h3'' [VText (js ''Accident Details'')],
           VElem ''div''
             [VElem ''div''
                [VElem ''span'' [VText (js ''Date & Time:'')],
                 VElem ''span''
                   (child (date (accident_details a)) @ [VText (js '' - '')]
                    @ child (time (accident_details a)))],
              VElem ''div''
                [VElem ''span'' [VText (js ''Location:'')],
                 VElem ''span'' (child (location (accident_details a)))]]],
        fault_section (fault_assessment a)]"

definition party_field :: "string \<Rightarrow> jsval \<Rightarrow> vnode" where
  "party_field label v = VElem ''div'' [VElem ''span'' [VText (js label)], VElem ''p'' (child v)]"

definition party_card :: "jstring \<Rightarrow> party_rec \<Rightarrow> vnode" where
  "party_card title p =
     VElem ''div''
       [VElem ''h3'' [VText title],
        VElem ''div''
          ([party_field ''Name:'' (party_name p),
            party_field ''Vehicle Plate:'' (vehicle_plate p),
            party_field ''Vehicle Type:'' (vehicle_type p)]
           @ and_then (insurance_company p) [party_field ''Insurance:'' (insurance_company p)])]"

text \<open>The Turkish word in the two titles has U+00FC three times.\<close>

definition surucu :: jstring where
  "surucu = js ''S'' @ [0x00FC] @ js ''r'' @ [0x00FC] @ js ''c'' @ [0x00FC]"

definition parties_tab :: "analysis_rec \<Rightarrow> vnode" where
  "parties_tab a =
     VElem ''div''
       [VElem ''div''
          [party_card (js ''Party A ('' @ surucu @ js '' A)'') (party_a a),
           party_card (js ''Party B ('' @ surucu @ js '' B)'') (party_b a)]]"

definition selection_badges :: "string \<Rightarrow> string \<Rightarrow> jsval list \<Rightarrow> vnode" where
  "selection_badges heading word sel =
     VElem ''div''
       [VElem ''p'' [VText (js heading)],
        VElem ''div'' (map (\<lambda>x. VElem ''span'' (VText (js word) # child x)) sel)]"

definition form_analysis :: "checkboxes_rec \<Rightarrow> vnode" where
  "form_analysis fc =
     VElem ''div''
       ([VElem ''h3'' [VText (js ''Form Analysis'')]]
        @ when_items (section_12_selections fc)
            (selection_badges ''Damage Zones (Section 12):'' ''Zone '')
        @ when_items (section_13_selections fc)
            (selection_badges ''Accident Scenarios (Section 13):'' ''Scenario ''))"

definition photo_label :: "photo_rec \<Rightarrow> vnode" where
  "photo_label photo = VElem ''p'' ([VText (js ''Photo '')] @ child (photo_id photo) @ [VText (js '':'')])"

definition photo_block :: "photo_rec \<Rightarrow> vnode" where
  "photo_block photo = VElem ''div'' [photo_label photo, VElem ''p'' (child (description photo))]"

definition photo_section :: "photo_rec list \<Rightarrow> vnode" where
  "photo_section photos =
     VElem ''div''
       [VElem ''h3'' [VText (js ''Photo Analysis'')],
        VElem ''div'' (map photo_block photos)]"

definition actions_section :: "jsval list \<Rightarrow> vnode" where
  "actions_section actions =
     VElem ''div''
       [VElem ''h3'' [VText (js ''Recommended Actions'')],
        VElem ''ul'' (map (\<lambda>action. VElem ''li'' [VElem ''span'' (child action)]) actions)]"

definition details_tab :: "analysis_rec \<Rightarrow> vnode" where
  "details_tab a =
     VElem ''div''
       ((case form_checkboxes a of None \<Rightarrow> [] | Some fc \<Rightarrow> [form_analysis fc])
        @ when_items (photo_analyses a) photo_section
        @ when_items (recommended_actions a) actions_section)"

fun renderTabContent :: "tab \<Rightarrow> result_rec \<Rightarrow> vnode" where
  "renderTabContent Summary r = summary_tab (analysis r)"
| "renderTabContent Parties r = parties_tab (analysis r)"
| "renderTabContent Details r = details_tab (analysis r)"
| "renderTabContent Full r = VElem ''div'' [VHtml (briefing_html r)]"

subsection \<open>Downloads\<close>

text \<open>
  What \<open>downloadBriefing\<close> does to the browser: a click on an anchor whose \<open>href\<close> is
  a blob saves the blob's parts under the anchor's \<open>download\<close> name; \<open>alert\<close> shows
  a message and saves nothing.
\<close>

record saved_file =
  download :: jstring
  blob_type :: jstring
  blob_parts :: "jstring list"

datatype browser_effect = Save saved_file | Alert jstring

definition downloadBriefing :: "jstring \<Rightarrow> result_rec \<Rightarrow> browser_effect list" where
  "downloadBriefing format r =
     (if format = js ''html'' then
        [Save \<lparr>download = js ''lexintake_briefing_'' @ session_id r @ js ''.html'',
               blob_type = js ''text/html'',
               blob_parts = [briefing_html r]\<rparr>]
      else if format = js ''pdf'' then
        [Alert (js ''PDF download will be implemented with backend integration'')]
      else [])"

text \<open>The two download buttons of the view.\<close>

datatype button = DownloadHtml | DownloadPdf

fun click :: "button \<Rightarrow> result_rec \<Rightarrow> browser_effect list" where
  "click DownloadHtml r = downloadBriefing (js ''html'') r"
| "click DownloadPdf r = downloadBriefing (js ''pdf'') r"

section \<open>App\<close>

datatype current_step = Upload | Analyzing | Results

text \<open>
  The error cell holds \<open>null\<close>, the fallback text or whatever the server sent as
  \<open>detail\<close>: any JSON value, a primitive, a list or an object.
\<close>

datatype json = Prim jsval | Arr "json list" | Obj "(jstring \<times> json) list"

text \<open>Lists and objects are truthy, also the empty ones.\<close>

fun truthy_json :: "json \<Rightarrow> bool" where
  "truthy_json (Prim v) = truthy v"
| "truthy_json (Arr xs) = True"
| "truthy_json (Obj kvs) = True"

text \<open>\<open>a || b\<close>\<close>

definition json_or :: "json \<Rightarrow> json \<Rightarrow> json" where
  "json_or a b = (if truthy_json a then a else b)"


record app_state =
  currentStep :: current_step
  analysisResult :: "result_rec option"
  error :: json

definition initial_app :: app_state where
  "initial_app = \<lparr>currentStep = Upload, analysisResult = None, error = Prim JNull\<rparr>"

text \<open>
  The one request the front end makes. \<open>API_BASE_URL\<close> is read from the build's
  environment and is a parameter here.
\<close>

record request =
  url :: jstring
  body :: form_data
  content_type :: jstring
  timeout :: nat

definition analyze_request :: "jstring \<Rightarrow> form_data \<Rightarrow> request" where
  "analyze_request base formData =
     \<lparr>url = base @ js ''/api/analyze'', body = formData,
      content_type = js ''multipart/form-data'', timeout = 120000\<rparr>"

text \<open>
  How the awaited call ends. It resolves with the response, whose \<open>data\<close> is the
  result, or it rejects with an error: one that has no \<open>response\<close> (the network
  failed, or the timeout of the request ran out), one whose response has no \<open>data\<close>,
  or one whose response data has the value \<open>detail\<close> (\<open>undefined\<close> when the data has
  no such field).
\<close>

datatype axios_error = NoResponse | NoData | Data json

datatype outcome = Resolved result_rec | Rejected axios_error

text \<open>\<open>err.response?.data?.detail\<close>\<close>

fun detail :: "axios_error \<Rightarrow> json" where
  "detail NoResponse = Prim JUndefined"
| "detail NoData = Prim JUndefined"
| "detail (Data d) = d"

definition fallback_message :: jstring where
  "fallback_message = js ''An error occurred during analysis. Please try again.''"

text \<open>
  \<open>handleAnalyze\<close> up to the \<open>await\<close>, and from there on. Between the two the
  spinner is shown.
\<close>

definition handleAnalyze_begin :: "app_state \<Rightarrow> app_state" where
  "handleAnalyze_begin a = a\<lparr>currentStep := Analyzing, error := Prim JNull\<rparr>"

fun handleAnalyze_settle :: "outcome \<Rightarrow> app_state \<Rightarrow> app_state" where
  "handleAnalyze_settle (Resolved d) a = a\<lparr>analysisResult := Some d, currentStep := Results\<rparr>"
| "handleAnalyze_settle (Rejected err) a =
     a\<lparr>error := json_or (detail err) (Prim (JStr fallback_message)), currentStep := Upload\<rparr>"

text \<open>The state after the call has settled, and the requests it has issued.\<close>

definition handleAnalyze :: "jstring \<Rightarrow> form_data \<Rightarrow> outcome \<Rightarrow> app_state \<Rightarrow> app_state \<times> request list" where
  "handleAnalyze base formData out a =
     (handleAnalyze_settle out (handleAnalyze_begin a), [analyze_request base formData])"





text \<open>
  \<open>handleSubmit\<close> inside the app, where \<open>onAnalyze\<close> is \<open>handleAnalyze\<close>; \<open>out\<close>
  is how the request ends if one is made. The form is on screen only at the upload
  step, so after a request it is gone (\<open>None\<close>) or, when the request has failed, back
  as the initial form.
\<close>

definition submit_handler ::
  "jstring \<Rightarrow> outcome \<Rightarrow> app_state \<times> upload_state
     \<Rightarrow> (app_state \<times> upload_state option) \<times> request list" where
  "submit_handler base out w =
     (case handleSubmit (snd w) of
        (s', None) \<Rightarrow> ((fst w, Some s'), [])
      | (s', Some formData) \<Rightarrow>
          (case handleAnalyze base formData out (fst w) of
             (a', reqs) \<Rightarrow>
               ((a', if currentStep a' = Upload then Some initial_upload else None), reqs)))"

text \<open>
  A click on the submit button, which is the only caller of \<open>handleSubmit\<close> and is
  \<open>disabled={!mainReport}\<close>: a click on the disabled button runs nothing.
\<close>

definition submit_click ::
  "jstring \<Rightarrow> outcome \<Rightarrow> app_state \<times> upload_state
     \<Rightarrow> (app_state \<times> upload_state option) \<times> request list" where
  "submit_click base out w =
     (if mainReport (snd w) = None then ((fst w, Some (snd w)), [])
      else submit_handler base out w)"

section \<open>Sample inputs\<close>

text \<open>Concrete files, forms and results, for running the definitions.\<close>

definition sample_report :: jsfile where
  "sample_report =
     \<lparr>file_name = js ''tutanak.pdf'', file_type = js ''application/pdf'', file_size = 204800\<rparr>"

definition sample_photo :: "nat \<Rightarrow> jsfile" where
  "sample_photo n = \<lparr>file_name = js ''hasar.jpg'', file_type = js ''image/jpeg'', file_size = n\<rparr>"

definition sample_webp :: jsfile where
  "sample_webp =
     \<lparr>file_name = js ''scan.webp'', file_type = js ''image/webp'', file_size = 1000\<rparr>"

text \<open>A photo the browser gives no type, and three lines of the extension table.\<close>

definition sample_heic :: jsfile where
  "sample_heic = \<lparr>file_name = js ''pic.heic'', file_type = [], file_size = 1000\<rparr>"

definition sample_mime_types :: "jstring \<Rightarrow> jstring option" where
  "sample_mime_types =
     map_of [(js ''heic'', js ''image/heic''), (js ''jpg'', js ''image/jpeg''),
             (js ''pdf'', js ''application/pdf'')]"


definition sample_fault :: fault_rec where
  "sample_fault =
     \<lparr>preliminary_fault_party = JStr (js ''Party A''),
      party_a_fault_percentage = JNum 100,
      party_b_fault_percentage = JNull\<rparr>"

definition sample_party :: party_rec where
  "sample_party =
     \<lparr>party_name = JStr (js ''A. Kaya''), vehicle_plate = JStr (js ''34 ABC 123''),
      vehicle_type = JStr (js ''Otomobil''), insurance_company = JNull\<rparr>"

text \<open>
  A result whose two photo analyses carry the ids 2 and 1, in this order, and whose
  confidence is 0 although a field is reported missing.
\<close>

definition sample_analysis :: analysis_rec where
  "sample_analysis =
     \<lparr>case_summary = JStr (js ''Rear-end collision''),
      accident_details = \<lparr>date = JStr (js ''2024-05-01''), time = JStr (js ''14:30''),
                          location = JStr (js ''Kadikoy'')\<rparr>,
      party_a = sample_party,
      party_b = sample_party,
      form_checkboxes = None,
      photo_analyses = Some [\<lparr>photo_id = JNum 2, description = JStr (js ''rear bumper'')\<rparr>,
                             \<lparr>photo_id = JNum 1, description = JStr (js ''front bumper'')\<rparr>],
      fault_assessment = sample_fault,
      recommended_actions = None,
      extraction_confidence = JNum 0,
      missing_information = Some [js ''party_b.insurance_company'']\<rparr>"

definition sample_result :: result_rec where
  "sample_result =
     \<lparr>briefing_html = js ''<html><body>Briefing</body></html>'',
      session_id = js ''abc123'',
      analysis = sample_analysis\<rparr>"

text \<open>A session at the form: a report, six photos, the first removed, three more files.\<close>

definition busy_form :: "event list" where
  "busy_form =
     [DropReport [sample_report],
      DropPhotos [sample_photo 11, sample_photo 12, sample_photo 13, sample_photo 14,
                  sample_photo 15, sample_photo 16],
      RemovePhoto 0,
      DropPhotos [sample_photo 17, sample_report, sample_photo 18]]"

text \<open>Two more sessions: one fills in a name, the other types a single space as the name.\<close>

definition named_form :: "event list" where
  "named_form = [DropReport [sample_report], SetName (js ''A. Kaya'')]"

definition blank_name_form :: "event list" where
  "blank_name_form = [DropReport [sample_report], SetName (js '' '')]"

text \<open>The same analysis with full confidence.\<close>

definition confident_analysis :: analysis_rec where
  "confident_analysis = sample_analysis\<lparr>extraction_confidence := JNum 1\<rparr>"

section \<open>Submitting the form\<close>

lemma validateForm_None:
  "mainReport s = None \<Longrightarrow>
     validateForm s = (False, s\<lparr>errors := [(''report'', JStr report_required)]\<rparr>)"
  by (simp add: validateForm_def)

lemma validateForm_Some:
  "mainReport s = Some f \<Longrightarrow> validateForm s = (True, s\<lparr>errors := []\<rparr>)"
  by (simp add: validateForm_def)

lemma handleSubmit_None:
  "mainReport s = None \<Longrightarrow>
     handleSubmit s = (s\<lparr>errors := [(''report'', JStr report_required)]\<rparr>, None)"
  by (simp add: handleSubmit_def validateForm_None)

lemma handleSubmit_Some:
  "mainReport s = Some f \<Longrightarrow> handleSubmit s = (s\<lparr>errors := []\<rparr>, Some (build_formData s))"
  by (simp add: handleSubmit_def validateForm_Some)

lemma submit_handler_Some:
  "mainReport s = Some f \<Longrightarrow>
     snd (submit_handler base out (a, s)) = [analyze_request base (build_formData s)]"
  by (simp add: submit_handler_def handleSubmit_Some handleAnalyze_def split: prod.splits)

lemma submit_click_Some:
  "mainReport s = Some f \<Longrightarrow>
     snd (submit_click base out (a, s)) = [analyze_request base (build_formData s)]"
  by (simp add: submit_click_def submit_handler_Some)

text \<open>
  Claim C1. In a state with no primary document, \<open>handleSubmit\<close>, when it is invoked,
  fails in the browser: the form's only error becomes the message
  \<open>Kaza Tespit Tutana[U+011F][U+0131] is required\<close> under \<open>report\<close> and the handler
  returns before \<open>onAnalyze\<close>, so that in the app no request is issued and the app's
  state stays as it was. The button that invokes the handler is disabled in such a
  state: a click on it runs nothing, and issues no request either.
\<close>

theorem missing_report_fails_locally:
  "mainReport s = None \<Longrightarrow>
     handleSubmit s
       = (s\<lparr>errors := [(''report'',
             JStr (js ''Kaza Tespit Tutana'' @ [0x011F, 0x0131] @ js '' is required''))]\<rparr>,
          None)
     \<and> submit_handler base out (a, s)
       = ((a, Some (s\<lparr>errors := [(''report'',
             JStr (js ''Kaza Tespit Tutana'' @ [0x011F, 0x0131] @ js '' is required''))]\<rparr>)),
          [])
     \<and> submit_click base out (a, s) = ((a, Some s), [])"
  by (simp add: submit_click_def submit_handler_def handleSubmit_None report_required_def)

theorem missing_report_fails_locally_witness:
  "mainReport initial_upload = None
   \<and> snd (handleSubmit initial_upload) = None
   \<and> errors (fst (handleSubmit initial_upload))
       = [(''report'', JStr (js ''Kaza Tespit Tutana'' @ [0x011F, 0x0131] @ js '' is required''))]
   \<and> submit_handler (js ''http://localhost:8000'') (Rejected NoResponse)
         (initial_app, initial_upload)
       = ((initial_app,
           Some (initial_upload\<lparr>errors := [(''report'',
             JStr (js ''Kaza Tespit Tutana'' @ [0x011F, 0x0131] @ js '' is required''))]\<rparr>)),
          [])
   \<and> submit_click (js ''http://localhost:8000'') (Rejected NoResponse)
         (initial_app, initial_upload)
       = ((initial_app, Some initial_upload), [])"
proof -
  have h: "mainReport initial_upload = None"
    by (simp add: initial_upload_def)
  show ?thesis
    using h missing_report_fails_locally
            [OF h, of "js ''http://localhost:8000''" "Rejected NoResponse" initial_app]
    by simp
qed

section \<open>The dropzone filter on the two option sets\<close>

lemma matches_ext:
  "matches_type f (js ''.pdf'') = endsWith (toLowerCase (file_name f)) (js ''.pdf'')"
  "matches_type f (js ''.png'') = endsWith (toLowerCase (file_name f)) (js ''.png'')"
  "matches_type f (js ''.jpg'') = endsWith (toLowerCase (file_name f)) (js ''.jpg'')"
  "matches_type f (js ''.jpeg'') = endsWith (toLowerCase (file_name f)) (js ''.jpeg'')"
  "matches_type f (js ''.gif'') = endsWith (toLowerCase (file_name f)) (js ''.gif'')"
  "matches_type f (js ''.bmp'') = endsWith (toLowerCase (file_name f)) (js ''.bmp'')"
  by (simp_all add: matches_type_def js_def trim_def is_js_space_def toLowerCase_def)

lemma matches_image:
  "matches_type f (js ''image/*'') = (baseMimeType (toLowerCase (file_type f)) = js ''image'')"
  by (simp add: matches_type_def js_def trim_def is_js_space_def toLowerCase_def endsWith_def
      baseMimeType_def)

lemma matches_pdf:
  "matches_type f (js ''application/pdf'') = (toLowerCase (file_type f) = js ''application/pdf'')"
  by (simp add: matches_type_def js_def trim_def is_js_space_def toLowerCase_def endsWith_def)

lemma report_attr:
  "acceptPropAsAcceptAttr (accept report_options) =
     [js ''application/pdf'', js ''.pdf'', js ''image/*'',
      js ''.png'', js ''.jpg'', js ''.jpeg'', js ''.gif'', js ''.bmp'']"
  by (simp add: acceptPropAsAcceptAttr_def report_options_def)

lemma photos_attr:
  "acceptPropAsAcceptAttr (accept photos_options) =
     [js ''image/*'', js ''.png'', js ''.jpg'', js ''.jpeg'', js ''.gif'', js ''.bmp'']"
  by (simp add: acceptPropAsAcceptAttr_def photos_options_def)

lemma report_passes_iff:
  "file_passes report_options f \<longleftrightarrow>
     file_size f \<le> 10485760
     \<and> (file_type f = js ''application/x-moz-file''
        \<or> toLowerCase (file_type f) = js ''application/pdf''
        \<or> baseMimeType (toLowerCase (file_type f)) = js ''image''
        \<or> list_ex (endsWith (toLowerCase (file_name f)))
             [js ''.pdf'', js ''.png'', js ''.jpg'', js ''.jpeg'', js ''.gif'', js ''.bmp''])"
  unfolding file_passes_def fileAccepted_def accepts_def fileMatchSize_def report_attr
  by (simp add: matches_ext matches_image matches_pdf report_options_def) blast

lemma photos_passes_iff:
  "file_passes photos_options f \<longleftrightarrow>
     file_size f \<le> 10485760
     \<and> (file_type f = js ''application/x-moz-file''
        \<or> baseMimeType (toLowerCase (file_type f)) = js ''image''
        \<or> list_ex (endsWith (toLowerCase (file_name f)))
             [js ''.png'', js ''.jpg'', js ''.jpeg'', js ''.gif'', js ''.bmp''])"
  unfolding file_passes_def fileAccepted_def accepts_def fileMatchSize_def photos_attr
  by (simp add: matches_ext matches_image matches_pdf photos_options_def) blast

lemma sample_report_passes: "file_passes report_options sample_report"
  by (simp add: report_passes_iff sample_report_def) (simp add: js_def toLowerCase_def)

lemma sample_photo_passes: "n \<le> 10485760 \<Longrightarrow> file_passes photos_options (sample_photo n)"
  by (simp add: photos_passes_iff sample_photo_def) (simp add: js_def toLowerCase_def baseMimeType_def)

lemma sample_report_no_photo: "\<not> file_passes photos_options sample_report"
  by (simp add: photos_passes_iff sample_report_def) (simp add: js_def toLowerCase_def baseMimeType_def endsWith_def)


lemma withMimeType_typed: "file_type f \<noteq> [] \<Longrightarrow> withMimeType tbl f = f"
  by (simp add: withMimeType_def)

lemma samples_typed:
  "withMimeType tbl sample_report = sample_report"
  "withMimeType tbl (sample_photo n) = sample_photo n"
  "withMimeType tbl sample_webp = sample_webp"
  by (rule withMimeType_typed, simp add: sample_report_def sample_photo_def sample_webp_def js_def)+

lemma sample_heic_typed:
  "withMimeType sample_mime_types sample_heic = sample_heic\<lparr>file_type := js ''image/heic''\<rparr>"
  by (simp add: withMimeType_def sample_heic_def sample_mime_types_def extension_def
      toLowerCase_def js_def)

lemma accepted_sample_report: "acceptedFiles_of tbl report_options [sample_report] = [sample_report]"
  by (simp add: acceptedFiles_of_def samples_typed sample_report_passes)


lemma multiple_photos: "multiple photos_options" "\<not> multiple report_options"
  by (simp_all add: photos_options_def report_options_def)

lemma accepted_six:
  "acceptedFiles_of tbl photos_options
       [sample_photo 11, sample_photo 12, sample_photo 13, sample_photo 14, sample_photo 15, sample_photo 16]
     = [sample_photo 11, sample_photo 12, sample_photo 13, sample_photo 14, sample_photo 15, sample_photo 16]"
  by (simp add: acceptedFiles_of_def multiple_photos samples_typed sample_photo_passes)

lemma accepted_mixed:
  "acceptedFiles_of tbl photos_options [sample_photo 17, sample_report, sample_photo 18]
     = [sample_photo 17, sample_photo 18]"
  by (simp add: acceptedFiles_of_def multiple_photos samples_typed sample_photo_passes
      sample_report_no_photo)

section \<open>The photo list\<close>

lemma length_filter_index: "length (filter_index p xs) \<le> length xs"
proof -
  have "length (filter (\<lambda>(i, _). p i) (enumerate 0 xs)) \<le> length (enumerate 0 xs)"
    by (rule length_filter_le)
  then show ?thesis by (simp add: filter_index_def)
qed

lemma photos_handleSubmit: "additionalPhotos (fst (handleSubmit s)) = additionalPhotos s"
  by (simp add: handleSubmit_def validateForm_def)

lemma photos_onDropReport: "additionalPhotos (onDropReport fs s) = additionalPhotos s"
  by (simp add: onDropReport_def split: list.splits)

lemma upload_step_bound:
  "length (additionalPhotos s) \<le> 5 \<Longrightarrow> length (additionalPhotos (upload_step tbl s e)) \<le> 5"
proof (cases e)
  case (RemovePhoto i)
  assume "length (additionalPhotos s) \<le> 5"
  with length_filter_index [of "\<lambda>j. j \<noteq> i" "additionalPhotos s"] RemovePhoto
  show ?thesis by (simp add: removePhoto_def)
qed (simp_all add: photos_handleSubmit photos_onDropReport onDropPhotos_def)

lemma run_bound: "length (additionalPhotos (run tbl evs)) \<le> 5"
proof (induction evs rule: rev_induct)
  case Nil
  show ?case by (simp add: run_def initial_upload_def)
next
  case (snoc e evs)
  then show ?case using upload_step_bound [where s = "run tbl evs" and e = e and tbl = tbl]
    by (simp add: run_def)
qed

lemma getAll_append: "getAll k (xs @ ys) = getAll k xs @ getAll k ys"
  by (simp add: getAll_def)

lemma getAll_photos_build: "getAll ''photos'' (build_formData s) = map FFile (additionalPhotos s)"
  by (simp add: build_formData_def getAll_append)
     (simp add: getAll_def append_report_def append_if_def comp_def)

lemma submit_click_requests:
  "req \<in> set (snd (submit_click base out (a, s))) \<Longrightarrow> body req = build_formData s"
  by (auto simp: submit_click_def submit_handler_def handleSubmit_def validateForm_def
      handleAnalyze_def analyze_request_def split: if_splits)

lemma filter_enumerate_ne:
  "map snd (filter (\<lambda>(i, _). i \<noteq> k) (enumerate n xs))
     = (if k < n then xs else take (k - n) xs @ drop (Suc (k - n)) xs)"
proof (induction xs arbitrary: n)
  case Nil
  show ?case by simp
next
  case (Cons x xs)
  show ?case
  proof (cases "k < n")
    case True
    then show ?thesis using Cons [of "Suc n"] by simp
  next
    case False
    show ?thesis
    proof (cases "k = n")
      case True
      then show ?thesis using Cons [of "Suc n"] by simp
    next
      case False
      with \<open>\<not> k < n\<close> have "n < k" by simp
      then have "k - n = Suc (k - Suc n)" by simp
      then show ?thesis using Cons [of "Suc n"] \<open>n < k\<close> by simp
    qed
  qed
qed

lemma removePhoto_eq:
  "removePhoto k s =
     s\<lparr>additionalPhotos := take k (additionalPhotos s) @ drop (Suc k) (additionalPhotos s)\<rparr>"
  by (simp add: removePhoto_def filter_index_def filter_enumerate_ne)

lemma busy_form_state:
  "run tbl busy_form =
     \<lparr>mainReport = Some sample_report,
      additionalPhotos = [sample_photo 12, sample_photo 13, sample_photo 14, sample_photo 15, sample_photo 17],
      clientInfo = \<lparr>ci_name = [], ci_email = [], ci_notes = []\<rparr>,
      errors = [(''report'', JNull)]\<rparr>"
  unfolding busy_form_def run_def
  by (simp add: accepted_sample_report accepted_six accepted_mixed onDropReport_def
      onDropPhotos_def removePhoto_eq initial_upload_def)

text \<open>
  Claim C2. Whatever is done to the form, the photo list has at most 5 entries: a drop
  of accepted photos leaves the first 5 of the old list followed by the new files,
  removing a photo never makes the list longer, and every request the app issues
  carries at most 5 photos.
\<close>

theorem photos_at_most_five:
  "length (additionalPhotos (run tbl evs)) \<le> 5
   \<and> additionalPhotos (onDropPhotos acceptedFiles s) = take 5 (additionalPhotos s @ acceptedFiles)
   \<and> length (additionalPhotos (removePhoto index s)) \<le> length (additionalPhotos s)
   \<and> (\<forall>req \<in> set (snd (submit_click base out (a, run tbl evs))).
         length (getAll ''photos'' (body req)) \<le> 5)"
proof -
  have "length (getAll ''photos'' (body req)) \<le> 5"
    if "req \<in> set (snd (submit_click base out (a, run tbl evs)))" for req
    using submit_click_requests [OF that] run_bound [of tbl evs] by (simp add: getAll_photos_build)
  then show ?thesis
    by (simp add: run_bound onDropPhotos_def removePhoto_def length_filter_index)
qed

theorem photos_at_most_five_witness:
  "additionalPhotos (run sample_mime_types busy_form)
     = [sample_photo 12, sample_photo 13, sample_photo 14, sample_photo 15, sample_photo 17]
   \<and> snd (submit_click (js ''http://localhost:8000'') (Rejected NoResponse)
            (initial_app, run sample_mime_types busy_form))
       = [analyze_request (js ''http://localhost:8000'') (build_formData (run sample_mime_types busy_form))]
   \<and> length (getAll ''photos'' (build_formData (run sample_mime_types busy_form))) \<le> 5"
proof -
  let ?reqs = "snd (submit_click (js ''http://localhost:8000'') (Rejected NoResponse)
                  (initial_app, run sample_mime_types busy_form))"
  let ?req = "analyze_request (js ''http://localhost:8000'') (build_formData (run sample_mime_types busy_form))"
  have report: "mainReport (run sample_mime_types busy_form) = Some sample_report"
    by (simp add: busy_form_state)
  have reqs: "?reqs = [?req]"
    using report by (rule submit_click_Some)
  then have mem: "?req \<in> set ?reqs" by simp
  have "\<forall>req \<in> set ?reqs. length (getAll ''photos'' (body req)) \<le> 5"
    using photos_at_most_five [of sample_mime_types busy_form "[]" initial_upload 0
        "js ''http://localhost:8000''" "Rejected NoResponse" initial_app]
    by (elim conjE)
  then have "length (getAll ''photos'' (body ?req)) \<le> 5" using mem by (rule bspec)
  then have "length (getAll ''photos'' (build_formData (run sample_mime_types busy_form))) \<le> 5"
    by (simp add: analyze_request_def)
  with reqs show ?thesis by (simp add: busy_form_state)
qed

section \<open>The primary document\<close>








lemma typed_heic_passes:
  "file_passes report_options (sample_heic\<lparr>file_type := js ''image/heic''\<rparr>)"
  "file_passes photos_options (sample_heic\<lparr>file_type := js ''image/heic''\<rparr>)"
  by (simp_all add: report_passes_iff photos_passes_iff sample_heic_def)
     (simp_all add: js_def toLowerCase_def baseMimeType_def)




section \<open>The photo intake\<close>

text \<open>
  Claim C4, as amended. The photo intake has the image entries of the primary
  document's accept table and not its two PDF entries. Every dropped file is judged
  with the MIME type the browser gave it or, when it gave none, the one the dropzone's
  extension table gives it; so judged, a file is accepted as a photo exactly when the
  primary-document intake accepts it and it matches an image entry (MIME type
  \<open>image/*\<close>, a name ending in \<open>.png\<close>, \<open>.jpg\<close>, \<open>.jpeg\<close>, \<open>.gif\<close> or \<open>.bmp\<close>, or
  the placeholder type).
\<close>

theorem photo_intake_is_image_part:
  "(file_passes photos_options f \<longleftrightarrow>
      file_passes report_options f
      \<and> (file_type f = js ''application/x-moz-file''
         \<or> baseMimeType (toLowerCase (file_type f)) = js ''image''
         \<or> list_ex (endsWith (toLowerCase (file_name f)))
              [js ''.png'', js ''.jpg'', js ''.jpeg'', js ''.gif'', js ''.bmp'']))
   \<and> acceptedFiles_of tbl photos_options files
       = filter (file_passes photos_options) (map (withMimeType tbl) files)"
proof -
  have "file_passes photos_options f \<longleftrightarrow>
      file_passes report_options f
      \<and> (file_type f = js ''application/x-moz-file''
         \<or> baseMimeType (toLowerCase (file_type f)) = js ''image''
         \<or> list_ex (endsWith (toLowerCase (file_name f)))
              [js ''.png'', js ''.jpg'', js ''.jpeg'', js ''.gif'', js ''.bmp''])"
    unfolding report_passes_iff photos_passes_iff by auto
  then show ?thesis
    by (simp add: acceptedFiles_of_def multiple_photos)
qed

theorem photo_intake_is_image_part_witness:
  "file_passes photos_options (sample_photo 11)
   \<and> file_passes report_options (sample_photo 11)
   \<and> acceptedFiles_of sample_mime_types photos_options [sample_heic, sample_report]
       = [sample_heic\<lparr>file_type := js ''image/heic''\<rparr>]"
proof -
  note inst = photo_intake_is_image_part
      [of "sample_photo 11" sample_mime_types "[sample_heic, sample_report]"]
  have "file_passes photos_options (sample_photo 11)"
    by (simp add: sample_photo_passes)
  with inst have both: "file_passes photos_options (sample_photo 11)
      \<and> file_passes report_options (sample_photo 11)"
    by blast
  from inst have "acceptedFiles_of sample_mime_types photos_options [sample_heic, sample_report]
       = filter (file_passes photos_options) (map (withMimeType sample_mime_types)
           [sample_heic, sample_report])"
    by blast
  then have "acceptedFiles_of sample_mime_types photos_options [sample_heic, sample_report]
       = [sample_heic\<lparr>file_type := js ''image/heic''\<rparr>]"
    by (simp add: sample_heic_typed samples_typed typed_heic_passes sample_report_no_photo)
  with both show ?thesis by blast
qed

text \<open>
  The claim as it was stated fails on a PDF: the primary-document intake accepts it, the
  photo intake rejects it, and dropping it on the photo area leaves the list empty.
\<close>

theorem pdf_is_no_photo:
  "file_passes report_options sample_report
   \<and> \<not> file_passes photos_options sample_report
   \<and> mainReport (run sample_mime_types [DropReport [sample_report]]) = Some sample_report
   \<and> additionalPhotos (run sample_mime_types [DropPhotos [sample_report]]) = []"
  by (simp add: sample_report_passes sample_report_no_photo run_def accepted_sample_report
      onDropReport_def onDropPhotos_def acceptedFiles_of_def samples_typed initial_upload_def)

section \<open>The metadata fields\<close>

lemma getAll_meta_build:
  "getAll ''client_name'' (build_formData s) =
     (if ci_name (clientInfo s) = [] then [] else [FString (ci_name (clientInfo s))])"
  "getAll ''client_email'' (build_formData s) =
     (if ci_email (clientInfo s) = [] then [] else [FString (ci_email (clientInfo s))])"
  "getAll ''additional_notes'' (build_formData s) =
     (if ci_notes (clientInfo s) = [] then [] else [FString (ci_notes (clientInfo s))])"
  by (simp_all add: build_formData_def getAll_append)
     (simp_all add: getAll_def append_report_def append_if_def comp_def)

lemma named_form_state:
  "run tbl named_form =
     \<lparr>mainReport = Some sample_report, additionalPhotos = [],
      clientInfo = \<lparr>ci_name = js ''A. Kaya'', ci_email = [], ci_notes = []\<rparr>,
      errors = [(''report'', JNull)]\<rparr>"
  unfolding named_form_def run_def
  by (simp add: accepted_sample_report onDropReport_def initial_upload_def)

lemma blank_name_form_state:
  "run tbl blank_name_form =
     \<lparr>mainReport = Some sample_report, additionalPhotos = [],
      clientInfo = \<lparr>ci_name = js '' '', ci_email = [], ci_notes = []\<rparr>,
      errors = [(''report'', JNull)]\<rparr>"
  unfolding blank_name_form_def run_def
  by (simp add: accepted_sample_report onDropReport_def initial_upload_def)

text \<open>
  Claim C5, as amended. In every request, each of the three metadata fields (client
  name, client email, additional notes) is present exactly when the form's value is not
  the empty string, and then it is that value as typed; no field is sent empty. The
  value is not trimmed.
\<close>

theorem metadata_included_when_nonempty:
  "\<forall>req \<in> set (snd (submit_click base out (a, s))).
     getAll ''client_name'' (body req) =
       (if ci_name (clientInfo s) = [] then [] else [FString (ci_name (clientInfo s))])
     \<and> getAll ''client_email'' (body req) =
       (if ci_email (clientInfo s) = [] then [] else [FString (ci_email (clientInfo s))])
     \<and> getAll ''additional_notes'' (body req) =
       (if ci_notes (clientInfo s) = [] then [] else [FString (ci_notes (clientInfo s))])
     \<and> FString [] \<notin> set (getAll ''client_name'' (body req) @ getAll ''client_email'' (body req)
                            @ getAll ''additional_notes'' (body req))"
proof
  fix req
  assume "req \<in> set (snd (submit_click base out (a, s)))"
  then have "body req = build_formData s" by (rule submit_click_requests)
  then show "getAll ''client_name'' (body req) =
       (if ci_name (clientInfo s) = [] then [] else [FString (ci_name (clientInfo s))])
     \<and> getAll ''client_email'' (body req) =
       (if ci_email (clientInfo s) = [] then [] else [FString (ci_email (clientInfo s))])
     \<and> getAll ''additional_notes'' (body req) =
       (if ci_notes (clientInfo s) = [] then [] else [FString (ci_notes (clientInfo s))])
     \<and> FString [] \<notin> set (getAll ''client_name'' (body req) @ getAll ''client_email'' (body req)
                            @ getAll ''additional_notes'' (body req))"
    by (simp add: getAll_meta_build)
qed

theorem metadata_included_when_nonempty_witness:
  "snd (submit_click [] (Rejected NoResponse) (initial_app, run sample_mime_types named_form))
     = [analyze_request [] (build_formData (run sample_mime_types named_form))]
   \<and> getAll ''client_name'' (build_formData (run sample_mime_types named_form)) = [FString (js ''A. Kaya'')]
   \<and> getAll ''client_email'' (build_formData (run sample_mime_types named_form)) = []"
proof -
  let ?req = "analyze_request [] (build_formData (run sample_mime_types named_form))"
  have reqs: "snd (submit_click [] (Rejected NoResponse) (initial_app, run sample_mime_types named_form)) = [?req]"
    by (rule submit_click_Some) (simp add: named_form_state)
  then have "?req \<in> set (snd (submit_click [] (Rejected NoResponse) (initial_app, run sample_mime_types named_form)))"
    by simp
  with metadata_included_when_nonempty
         [of "[]" "Rejected NoResponse" initial_app "run sample_mime_types named_form"]
  have "getAll ''client_name'' (body ?req) =
       (if ci_name (clientInfo (run sample_mime_types named_form)) = [] then []
        else [FString (ci_name (clientInfo (run sample_mime_types named_form)))])
     \<and> getAll ''client_email'' (body ?req) =
       (if ci_email (clientInfo (run sample_mime_types named_form)) = [] then []
        else [FString (ci_email (clientInfo (run sample_mime_types named_form)))])"
    by blast
  then show ?thesis using reqs
    by (simp add: analyze_request_def named_form_state js_def)
qed

text \<open>
  The claim as it was stated fails on a name that is a single space: it is sent, and
  trimming it leaves nothing.
\<close>

theorem blank_name_is_submitted:
  "snd (submit_click [] (Rejected NoResponse) (initial_app, run sample_mime_types blank_name_form))
     = [analyze_request [] (build_formData (run sample_mime_types blank_name_form))]
   \<and> getAll ''client_name'' (build_formData (run sample_mime_types blank_name_form)) = [FString (js '' '')]
   \<and> trim (js '' '') = []"
proof -
  have "snd (submit_click [] (Rejected NoResponse) (initial_app, run sample_mime_types blank_name_form))
     = [analyze_request [] (build_formData (run sample_mime_types blank_name_form))]"
    by (rule submit_click_Some) (simp add: blank_name_form_state)
  moreover have "getAll ''client_name'' (build_formData (run sample_mime_types blank_name_form)) = [FString (js '' '')]"
    by (simp add: getAll_meta_build blank_name_form_state js_def)
  moreover have "trim (js '' '') = []"
    by (simp add: trim_def js_def is_js_space_def)
  ultimately show ?thesis by blast
qed

section \<open>A failed analysis\<close>







section \<open>Downloading the briefing\<close>

text \<open>
  Claim C7. The HTML button saves exactly \<open>briefing_html\<close>, as \<open>text/html\<close>, under
  the name \<open>lexintake_briefing_<session_id>.html\<close>. The PDF button saves nothing: it
  shows a notice that the download is still to be implemented.
\<close>

theorem pdf_download_is_a_stub:
  "click DownloadPdf r = [Alert (js ''PDF download will be implemented with backend integration'')]
   \<and> click DownloadHtml r =
       [Save \<lparr>download = js ''lexintake_briefing_'' @ session_id r @ js ''.html'',
              blob_type = js ''text/html'',
              blob_parts = [briefing_html r]\<rparr>]"
  by (simp add: downloadBriefing_def js_def)

section \<open>What a render shows\<close>

lemma descendants_child: "c \<in> set cs \<Longrightarrow> c \<in> set (descendants (VElem t cs))"
  by simp

lemma descendants_below:
  "c \<in> set cs \<Longrightarrow> d \<in> set (descendants c) \<Longrightarrow> d \<in> set (descendants (VElem t cs))"
  by auto

lemma child_no_element: "VElem t cs \<notin> set (rendered (child v))"
  by (cases v) (simp_all add: rendered_def)

lemma descendants_trans:
  "d \<in> set (descendants c) \<Longrightarrow> c \<in> set (descendants n) \<Longrightarrow> d \<in> set (descendants n)"
proof (induction n rule: descendants.induct)
  case (1 tag cs)
  from "1.prems"(2) consider "c \<in> set cs" | x where "x \<in> set cs" "c \<in> set (descendants x)"
    by auto
  then show ?case
  proof cases
    case 1
    from 1 "1.prems"(1) show ?thesis by (rule descendants_below)
  next
    case 2
    with "1.IH" "1.prems"(1) have "d \<in> set (descendants x)" by blast
    with 2(1) show ?thesis by (rule descendants_below)
  qed
qed simp_all

section \<open>Photo order\<close>

lemma photo_section_in_details:
  assumes "photo_analyses a = Some photos" and "photos \<noteq> []"
  shows "VElem ''div'' (map photo_block photos) \<in> set (descendants (details_tab a))"
proof -
  have "photo_section photos \<in> set (when_items (photo_analyses a) photo_section)"
    using assms by (simp add: when_items_def)
  then have "photo_section photos \<in> set
       ((case form_checkboxes a of None \<Rightarrow> [] | Some fc \<Rightarrow> [form_analysis fc])
        @ when_items (photo_analyses a) photo_section
        @ when_items (recommended_actions a) actions_section)"
    by simp
  moreover have "VElem ''div'' (map photo_block photos) \<in> set (descendants (photo_section photos))"
    unfolding photo_section_def by (rule descendants_child) simp
  ultimately show ?thesis
    unfolding details_tab_def by (rule descendants_below)
qed

lemma sample_photos:
  "photo_analyses (analysis sample_result) =
     Some [\<lparr>photo_id = JNum 2, description = JStr (js ''rear bumper'')\<rparr>,
           \<lparr>photo_id = JNum 1, description = JStr (js ''front bumper'')\<rparr>]"
  by (simp add: sample_result_def sample_analysis_def)

text \<open>
  Claim C8, as amended. Every request carries the photos in the order of the form's
  list. In the details tab the entries of \<open>photo_analyses\<close> are shown in the order of
  the sequence, the i-th block being that of the i-th entry, and each block is labelled
  \<open>Photo\<close> followed by the entry's own \<open>photo_id\<close>: the number shown is the one the
  result carries, not the position.
\<close>

theorem photo_order_kept:
  "(\<forall>req \<in> set (snd (submit_click base out (a, s))).
      getAll ''photos'' (body req) = map FFile (additionalPhotos s))
   \<and> (photo_analyses (analysis r) = Some photos \<and> photos \<noteq> [] \<longrightarrow>
        VElem ''div'' (map photo_block photos) \<in> set (descendants (renderTabContent Details r)))
   \<and> (\<forall>i < length photos.
        map photo_block photos ! i =
          VElem ''div''
            [VElem ''p'' ([VText (js ''Photo '')] @ child (photo_id (photos ! i)) @ [VText (js '':'')]),
             VElem ''p'' (child (description (photos ! i)))])"
proof -
  have "getAll ''photos'' (body req) = map FFile (additionalPhotos s)"
    if "req \<in> set (snd (submit_click base out (a, s)))" for req
    using submit_click_requests [OF that] by (simp add: getAll_photos_build)
  then show ?thesis
    by (simp add: photo_section_in_details photo_block_def photo_label_def)
qed

theorem photo_order_kept_witness:
  "snd (submit_click [] (Rejected NoResponse) (initial_app, run sample_mime_types busy_form))
     = [analyze_request [] (build_formData (run sample_mime_types busy_form))]
   \<and> getAll ''photos'' (build_formData (run sample_mime_types busy_form))
     = [FFile (sample_photo 12), FFile (sample_photo 13), FFile (sample_photo 14),
        FFile (sample_photo 15), FFile (sample_photo 17)]
   \<and> VElem ''div''
        [photo_block \<lparr>photo_id = JNum 2, description = JStr (js ''rear bumper'')\<rparr>,
         photo_block \<lparr>photo_id = JNum 1, description = JStr (js ''front bumper'')\<rparr>]
       \<in> set (descendants (renderTabContent Details sample_result))
   \<and> photo_block \<lparr>photo_id = JNum 2, description = JStr (js ''rear bumper'')\<rparr>
       = VElem ''div''
           [VElem ''p'' [VText (js ''Photo ''), VNum 2, VText (js '':'')],
            VElem ''p'' [VText (js ''rear bumper'')]]"
proof -
  let ?p2 = "\<lparr>photo_id = JNum 2, description = JStr (js ''rear bumper'')\<rparr>"
  let ?p1 = "\<lparr>photo_id = JNum 1, description = JStr (js ''front bumper'')\<rparr>"
  let ?req = "analyze_request [] (build_formData (run sample_mime_types busy_form))"
  note inst = photo_order_kept [of "[]" "Rejected NoResponse" initial_app "run sample_mime_types busy_form"
      sample_result "[?p2, ?p1]"]
  have reqs: "snd (submit_click [] (Rejected NoResponse) (initial_app, run sample_mime_types busy_form)) = [?req]"
    by (rule submit_click_Some) (simp add: busy_form_state)
  then have "?req \<in> set (snd (submit_click [] (Rejected NoResponse) (initial_app, run sample_mime_types busy_form)))"
    by simp
  with inst have "getAll ''photos'' (body ?req) = map FFile (additionalPhotos (run sample_mime_types busy_form))"
    by blast
  then have photos: "getAll ''photos'' (build_formData (run sample_mime_types busy_form))
     = [FFile (sample_photo 12), FFile (sample_photo 13), FFile (sample_photo 14),
        FFile (sample_photo 15), FFile (sample_photo 17)]"
    by (simp add: analyze_request_def busy_form_state)
  have shown: "VElem ''div'' [photo_block ?p2, photo_block ?p1]
       \<in> set (descendants (renderTabContent Details sample_result))"
    using inst sample_photos by simp
  have "(0::nat) < length [?p2, ?p1]" by simp
  with inst have "map photo_block [?p2, ?p1] ! 0 =
          VElem ''div''
            [VElem ''p'' ([VText (js ''Photo '')] @ child (photo_id ([?p2, ?p1] ! 0)) @ [VText (js '':'')]),
             VElem ''p'' (child (description ([?p2, ?p1] ! 0)))]"
    by blast
  then have "photo_block ?p2 = VElem ''div''
           [VElem ''p'' [VText (js ''Photo ''), VNum 2, VText (js '':'')],
            VElem ''p'' [VText (js ''rear bumper'')]]"
    by simp
  with reqs photos shown show ?thesis by blast
qed

text \<open>
  The claim as it was stated fails on a result whose two analyses carry the ids 2 and
  1: the tab shows \<open>Photo 2\<close> above \<open>Photo 1\<close>, not the numbering 1, 2 of the
  positions.
\<close>

theorem photo_numbers_follow_ids:
  "photo_analyses (analysis sample_result) =
     Some [\<lparr>photo_id = JNum 2, description = JStr (js ''rear bumper'')\<rparr>,
           \<lparr>photo_id = JNum 1, description = JStr (js ''front bumper'')\<rparr>]
   \<and> VElem ''div''
        [photo_block \<lparr>photo_id = JNum 2, description = JStr (js ''rear bumper'')\<rparr>,
         photo_block \<lparr>photo_id = JNum 1, description = JStr (js ''front bumper'')\<rparr>]
       \<in> set (descendants (renderTabContent Details sample_result))
   \<and> map photo_label
        [\<lparr>photo_id = JNum 2, description = JStr (js ''rear bumper'')\<rparr>,
         \<lparr>photo_id = JNum 1, description = JStr (js ''front bumper'')\<rparr>]
       = [VElem ''p'' [VText (js ''Photo ''), VNum 2, VText (js '':'')],
          VElem ''p'' [VText (js ''Photo ''), VNum 1, VText (js '':'')]]
   \<and> map photo_label
        [\<lparr>photo_id = JNum 2, description = JStr (js ''rear bumper'')\<rparr>,
         \<lparr>photo_id = JNum 1, description = JStr (js ''front bumper'')\<rparr>]
       \<noteq> [VElem ''p'' [VText (js ''Photo ''), VNum 1, VText (js '':'')],
          VElem ''p'' [VText (js ''Photo ''), VNum 2, VText (js '':'')]]"
proof -
  let ?p2 = "\<lparr>photo_id = JNum 2, description = JStr (js ''rear bumper'')\<rparr>"
  let ?p1 = "\<lparr>photo_id = JNum 1, description = JStr (js ''front bumper'')\<rparr>"
  have "VElem ''div'' (map photo_block [?p2, ?p1])
       \<in> set (descendants (details_tab (analysis sample_result)))"
    by (rule photo_section_in_details) (simp_all add: sample_photos)
  then show ?thesis
    by (simp add: sample_photos photo_label_def)
qed

section \<open>The confidence gate\<close>

lemma falsy_indicator:
  "\<not> truthy (extraction_confidence a) \<Longrightarrow>
     data_quality_indicator a = child (extraction_confidence a)"
  by (simp add: data_quality_indicator_def and_then_def)

lemma card_is_element: "\<exists>cs. confidence_card a = VElem ''div'' cs"
  by (simp add: confidence_card_def)

lemma warning_is_element: "\<exists>cs. missing_warning mi = VElem ''div'' cs"
  by (simp add: missing_warning_def)

lemma falsy_shows_no_card:
  assumes "\<not> truthy (extraction_confidence a)"
  shows "confidence_card a \<notin> set (rendered (data_quality_indicator a))"
    and "missing_warning mi \<notin> set (rendered (data_quality_indicator a))"
proof -
  obtain cs where "confidence_card a = VElem ''div'' cs"
    using card_is_element by blast
  then show "confidence_card a \<notin> set (rendered (data_quality_indicator a))"
    using assms by (simp add: falsy_indicator child_no_element)
  obtain ds where "missing_warning mi = VElem ''div'' ds"
    using warning_is_element by blast
  then show "missing_warning mi \<notin> set (rendered (data_quality_indicator a))"
    using assms by (simp add: falsy_indicator child_no_element)
qed

lemma truthy_shows_card:
  "truthy (extraction_confidence a) \<Longrightarrow>
     confidence_card a \<in> set (rendered (data_quality_indicator a))"
  by (simp add: data_quality_indicator_def and_then_def rendered_def)

text \<open>
  Claim C9. When \<open>extraction_confidence\<close> is 0 or absent, the data quality slot shows
  the value itself as a child (the text 0, or nothing) and neither the confidence card
  nor a missing-information warning, whatever \<open>missing_information\<close> holds. Either of
  the two is shown only when the confidence is truthy, and then the card is shown.
\<close>

theorem confidence_gates_quality_card:
  "(extraction_confidence a = JNum 0 \<or> extraction_confidence a = JUndefined
      \<or> extraction_confidence a = JNull \<longrightarrow>
      data_quality_indicator a = child (extraction_confidence a)
      \<and> confidence_card a \<notin> set (rendered (data_quality_indicator a))
      \<and> missing_warning mi \<notin> set (rendered (data_quality_indicator a)))
   \<and> (confidence_card a \<in> set (rendered (data_quality_indicator a))
        \<or> missing_warning mi \<in> set (rendered (data_quality_indicator a)) \<longrightarrow>
      truthy (extraction_confidence a))
   \<and> (truthy (extraction_confidence a) \<longrightarrow>
      confidence_card a \<in> set (rendered (data_quality_indicator a)))"
proof -
  have "\<not> truthy (extraction_confidence a)"
    if "extraction_confidence a = JNum 0 \<or> extraction_confidence a = JUndefined
      \<or> extraction_confidence a = JNull"
    using that by auto
  then show ?thesis
    using falsy_indicator [of a] falsy_shows_no_card(1) [of a] falsy_shows_no_card(2) [of a mi]
      truthy_shows_card [of a]
    by blast
qed

theorem confidence_gates_quality_card_witness:
  "extraction_confidence sample_analysis = JNum 0
   \<and> missing_information sample_analysis = Some [js ''party_b.insurance_company'']
   \<and> data_quality_indicator sample_analysis = [VNum 0]
   \<and> confidence_card sample_analysis \<notin> set (rendered (data_quality_indicator sample_analysis))
   \<and> missing_warning [js ''party_b.insurance_company'']
       \<notin> set (rendered (data_quality_indicator sample_analysis))
   \<and> truthy (extraction_confidence confident_analysis)
   \<and> confidence_card confident_analysis
       \<in> set (rendered (data_quality_indicator confident_analysis))"
proof -
  have h: "extraction_confidence sample_analysis = JNum 0"
    by (simp add: sample_analysis_def)
  have m: "missing_information sample_analysis = Some [js ''party_b.insurance_company'']"
    by (simp add: sample_analysis_def)
  from h confidence_gates_quality_card [of sample_analysis "[js ''party_b.insurance_company'']"]
  have eq: "data_quality_indicator sample_analysis = child (extraction_confidence sample_analysis)"
    and nc: "confidence_card sample_analysis \<notin> set (rendered (data_quality_indicator sample_analysis))"
    and nw: "missing_warning [js ''party_b.insurance_company'']
          \<notin> set (rendered (data_quality_indicator sample_analysis))"
    by blast+
  from eq h have zero: "data_quality_indicator sample_analysis = [VNum 0]" by simp
  have t: "truthy (extraction_confidence confident_analysis)"
    by (simp add: confident_analysis_def)
  with confidence_gates_quality_card [of confident_analysis "[]"]
  have "confidence_card confident_analysis
       \<in> set (rendered (data_quality_indicator confident_analysis))"
    by blast
  with h m zero nc nw t show ?thesis by blast
qed

section \<open>The fault distribution\<close>

lemma fault_distribution_in_summary:
  assumes "party_a_fault_percentage (fault_assessment a) \<noteq> JNull"
  shows "fault_distribution (fault_assessment a) \<in> set (descendants (summary_tab a))"
proof -
  have "fault_distribution (fault_assessment a)
      \<in> set (descendants (fault_section (fault_assessment a)))"
    unfolding fault_section_def using assms by (intro descendants_child) simp
  then show ?thesis
    unfolding summary_tab_def by (intro descendants_below [where c = "fault_section (fault_assessment a)"]) simp_all
qed

lemma fault_box_in_distribution:
  "fault_box (js ''Party A'') (party_a_fault_percentage fa) \<in> set (descendants (fault_distribution fa))"
  "fault_box (js ''Party B'') (party_b_fault_percentage fa) \<in> set (descendants (fault_distribution fa))"
  by (simp_all add: fault_distribution_def)

text \<open>
  Claim C10. When \<open>party_a_fault_percentage\<close> is not \<open>null\<close>, the summary tab shows
  the fault distribution: its heading and one box for each party, party A's with the
  value of \<open>party_a_fault_percentage\<close> before the percent sign and party B's with the
  value of \<open>party_b_fault_percentage\<close>, read without any check. When that one is
  \<open>null\<close>, party B's box is shown with the bare percent sign.
\<close>

theorem fault_boxes_for_both_parties:
  "party_a_fault_percentage (fault_assessment (analysis r)) \<noteq> JNull \<Longrightarrow>
     VElem ''div''
       [VElem ''p'' [VText (js ''Estimated Fault Distribution:'')],
        VElem ''div''
          [VElem ''div''
             [VElem ''div''
                [VElem ''p'' [VText (js ''Party A'')],
                 VElem ''p'' (child (party_a_fault_percentage (fault_assessment (analysis r)))
                              @ [VText (js ''%'')])]],
           VElem ''div''
             [VElem ''div''
                [VElem ''p'' [VText (js ''Party B'')],
                 VElem ''p'' (child (party_b_fault_percentage (fault_assessment (analysis r)))
                              @ [VText (js ''%'')])]]]]
       \<in> set (descendants (renderTabContent Summary r))
     \<and> VElem ''div''
         [VElem ''div''
            [VElem ''p'' [VText (js ''Party A'')],
             VElem ''p'' (child (party_a_fault_percentage (fault_assessment (analysis r)))
                          @ [VText (js ''%'')])]]
       \<in> set (descendants (renderTabContent Summary r))
     \<and> VElem ''div''
         [VElem ''div''
            [VElem ''p'' [VText (js ''Party B'')],
             VElem ''p'' (child (party_b_fault_percentage (fault_assessment (analysis r)))
                          @ [VText (js ''%'')])]]
       \<in> set (descendants (renderTabContent Summary r))
     \<and> (party_b_fault_percentage (fault_assessment (analysis r)) = JNull \<longrightarrow>
          VElem ''div''
            [VElem ''div'' [VElem ''p'' [VText (js ''Party B'')], VElem ''p'' [VText (js ''%'')]]]
          \<in> set (descendants (renderTabContent Summary r)))"
proof -
  let ?fa = "fault_assessment (analysis r)"
  assume "party_a_fault_percentage ?fa \<noteq> JNull"
  then have d: "fault_distribution ?fa \<in> set (descendants (summary_tab (analysis r)))"
    by (rule fault_distribution_in_summary)
  have boxA: "fault_box (js ''Party A'') (party_a_fault_percentage ?fa)
       \<in> set (descendants (summary_tab (analysis r)))"
    using fault_box_in_distribution(1) d by (rule descendants_trans)
  have boxB: "fault_box (js ''Party B'') (party_b_fault_percentage ?fa)
       \<in> set (descendants (summary_tab (analysis r)))"
    using fault_box_in_distribution(2) d by (rule descendants_trans)
  have "fault_box (js ''Party B'') JNull \<in> set (descendants (summary_tab (analysis r)))"
    if "party_b_fault_percentage ?fa = JNull"
    using boxB that by simp
  with d boxA boxB show ?thesis
    by (simp add: fault_distribution_def fault_box_def)
qed

theorem fault_boxes_for_both_parties_witness:
  "party_a_fault_percentage (fault_assessment (analysis sample_result)) = JNum 100
   \<and> party_b_fault_percentage (fault_assessment (analysis sample_result)) = JNull
   \<and> VElem ''div''
        [VElem ''div'' [VElem ''p'' [VText (js ''Party B'')], VElem ''p'' [VText (js ''%'')]]]
       \<in> set (descendants (renderTabContent Summary sample_result))
   \<and> VElem ''div''
        [VElem ''div'' [VElem ''p'' [VText (js ''Party A'')],
                        VElem ''p'' [VNum 100, VText (js ''%'')]]]
       \<in> set (descendants (renderTabContent Summary sample_result))"
proof -
  have a: "party_a_fault_percentage (fault_assessment (analysis sample_result)) = JNum 100"
    and b: "party_b_fault_percentage (fault_assessment (analysis sample_result)) = JNull"
    by (simp_all add: sample_result_def sample_analysis_def sample_fault_def)
  from a have "party_a_fault_percentage (fault_assessment (analysis sample_result)) \<noteq> JNull"
    by simp
  from fault_boxes_for_both_parties [OF this]
  have boxA: "VElem ''div''
         [VElem ''div''
            [VElem ''p'' [VText (js ''Party A'')],
             VElem ''p'' (child (party_a_fault_percentage (fault_assessment (analysis sample_result)))
                          @ [VText (js ''%'')])]]
       \<in> set (descendants (renderTabContent Summary sample_result))"
    and boxB: "party_b_fault_percentage (fault_assessment (analysis sample_result)) = JNull \<longrightarrow>
          VElem ''div''
            [VElem ''div'' [VElem ''p'' [VText (js ''Party B'')], VElem ''p'' [VText (js ''%'')]]]
          \<in> set (descendants (renderTabContent Summary sample_result))"
    by blast+
  from boxA have "VElem ''div''
        [VElem ''div'' [VElem ''p'' [VText (js ''Party A'')],
                        VElem ''p'' [VNum 100, VText (js ''%'')]]]
       \<in> set (descendants (renderTabContent Summary sample_result))"
    unfolding a by simp
  with a b boxB show ?thesis by blast
qed

end
